theory Spec2Isabelle
  imports Complex_Main "HOL-Library.Sublist" "HOL-Library.AList"
begin

section \<open>JavaScript values used by the scrapers\<close>

text \<open>
  Strings are lists of 8-bit characters. \<open>toLowerCase\<close> maps the ASCII capitals to their
  small letters and leaves every other character alone; \<open>trim\<close> strips the white space
  characters of that range from both ends. Numbers are modelled as exact reals, so rounding
  of IEEE doubles is not part of the model.
\<close>

definition toLowerChar :: "char \<Rightarrow> char" where
  "toLowerChar c =
     (let n = (of_char c :: nat) in if 65 \<le> n \<and> n \<le> 90 then char_of (n + 32) else c)"

definition toLowerCase :: "string \<Rightarrow> string" where
  "toLowerCase s = map toLowerChar s"

definition isWhiteSpace :: "char \<Rightarrow> bool" where
  "isWhiteSpace c = ((of_char c :: nat) \<in> {9, 10, 11, 12, 13, 32, 160})"

definition trim :: "string \<Rightarrow> string" where
  "trim s = rev (dropWhile isWhiteSpace (rev (dropWhile isWhiteSpace s)))"

text \<open>\<open>text.includes(k)\<close>: \<open>k\<close> occurs in \<open>text\<close> as a contiguous substring.\<close>

fun includes_str :: "string \<Rightarrow> string \<Rightarrow> bool" where
  "includes_str [] k = (k = [])"
| "includes_str (c # cs) k = (prefix k (c # cs) \<or> includes_str cs k)"

text \<open>\<open>keywords.some(k => text.includes(k))\<close>\<close>

definition someIncluded :: "string list \<Rightarrow> string \<Rightarrow> bool" where
  "someIncluded keywords text = list_ex (\<lambda>k. includes_str text k) keywords"

text \<open>
  A value of type \<open>string | undefined\<close> is a \<open>string option\<close>. It is truthy when it is a
  non-empty string; \<open>a || b\<close> is \<open>a\<close> when \<open>a\<close> is truthy and \<open>b\<close> otherwise.
\<close>

definition truthy :: "string option \<Rightarrow> bool" where
  "truthy a = (case a of None \<Rightarrow> False | Some s \<Rightarrow> s \<noteq> [])"

definition orElse :: "string option \<Rightarrow> string option \<Rightarrow> string option" where
  "orElse a b = (if truthy a then a else b)"

definition orElseStr :: "string option \<Rightarrow> string \<Rightarrow> string" where
  "orElseStr a b = (case a of None \<Rightarrow> b | Some s \<Rightarrow> if s \<noteq> [] then s else b)"

text \<open>\<open>Array.from(new Set(xs))\<close>: the distinct elements in order of first insertion.\<close>

definition setAdd :: "'a list \<Rightarrow> 'a \<Rightarrow> 'a list" where
  "setAdd acc x = (if x \<in> set acc then acc else acc @ [x])"

definition arrayFromSet :: "'a list \<Rightarrow> 'a list" where
  "arrayFromSet xs = foldl setAdd [] xs"

text \<open>\<open>xs.join(sep)\<close>\<close>

fun join :: "string \<Rightarrow> string list \<Rightarrow> string" where
  "join sep [] = []"
| "join sep [x] = x"
| "join sep (x # y # ys) = x @ sep @ join sep (y # ys)"

section \<open>The researcher-focused scraper (scraper-researchers.ts)\<close>

datatype confidence = Low | Medium | High

record Researcher =
  name :: string
  title :: "string option"
  location :: "string option"
  githubUsername :: "string option"
  twitterUsername :: "string option"
  email :: "string option"
  source :: string
  sourceUrl :: string
  confidence :: confidence
  researchArea :: "string option"

text \<open>
  \<open>r.location?.toLowerCase().includes(k)\<close>: undefined (falsy) when the location is absent.
\<close>

definition locationIncludes :: "string option \<Rightarrow> string \<Rightarrow> bool" where
  "locationIncludes loc k =
     (case loc of None \<Rightarrow> False | Some l \<Rightarrow> includes_str (toLowerCase l) k)"

definition keepByPaloAlto :: "Researcher \<Rightarrow> bool" where
  "keepByPaloAlto r =
     (locationIncludes (Researcher.location r) ''palo alto'' \<or>
      locationIncludes (Researcher.location r) ''bay area'' \<or>
      \<not> truthy (Researcher.location r))"

definition filterByPaloAlto :: "Researcher list \<Rightarrow> Researcher list" where
  "filterByPaloAlto researchers = filter keepByPaloAlto researchers"

section \<open>The public researcher mapper\<close>

subsection \<open>Data model (types.ts)\<close>

record PublicResearcher =
  name :: string
  title :: "string option"
  company :: "string option"
  location :: "string option"
  locationConfidence :: confidence
  githubUrl :: "string option"
  openAlexUrl :: "string option"
  homepageUrl :: "string option"
  xaiPageUrl :: "string option"
  otherSources :: "string list"
  isResearchLike :: bool
  researchScore :: real
  "notes" :: "string option"

subsection \<open>Classifiers\<close>

definition highConfidenceKeywords :: "string list" where
  "highConfidenceKeywords =
     [''palo alto'', ''menlo park'', ''mountain view'', ''sunnyvale'',
      ''san francisco'', ''sf,'', ''redwood city'', ''cupertino'']"

definition mediumConfidenceKeywords :: "string list" where
  "mediumConfidenceKeywords =
     [''bay area'', ''silicon valley'', ''san jose'', ''california'', ''ca'',
      ''oakland'', ''berkeley'', ''fremont'', ''santa clara'']"

definition assessLocationConfidence :: "string \<Rightarrow> confidence" where
  "assessLocationConfidence location0 =
     (if location0 = [] then Low
      else let loc = toLowerCase location0 in
        if someIncluded highConfidenceKeywords loc then High
        else if someIncluded mediumConfidenceKeywords loc then Medium
        else Low)"

definition researchKeywords :: "string list" where
  "researchKeywords =
     [''research'', ''scientist'', ''machine learning'', ''ml'', ''ai'',
      ''deep learning'', ''nlp'', ''vision'', ''robotics'']"

text \<open>The method \<open>isResearchLike(text)\<close>; the record field has the plain name.\<close>

definition isResearchLike_text :: "string \<Rightarrow> bool" where
  "isResearchLike_text text = someIncluded researchKeywords text"

definition computeResearchScore :: "string \<Rightarrow> real" where
  "computeResearchScore text =
     (let hits = length (filter (\<lambda>k. includes_str text k) researchKeywords)
      in min 1 (real hits / real (length researchKeywords) + 2 / 10))"

subsection \<open>Source connectors: the candidate each one pushes\<close>

text \<open>
  Only the construction of the pushed record is modelled; the HTTP calls and page queries
  that deliver its inputs are outside. A GitHub user object carries the fields read here.
\<close>

record GitHubUser =
  login :: string
  user_name :: "string option"
  user_location :: "string option"
  bio :: "string option"
  html_url :: string
  blog :: "string option"

text \<open>\<open>x || undefined\<close> for a string \<open>x\<close>\<close>

definition orUndefined :: "string \<Rightarrow> string option" where
  "orUndefined x = (if x = [] then None else Some x)"

text \<open>
  The inline rule of \<open>fetchGitHubOrgMembers\<close> and \<open>fetchOrgContributors\<close>:
  \<open>loc ? (loc.toLowerCase().includes('palo alto') ? 'high' : 'medium') : 'low'\<close>
\<close>

definition paloAltoConfidence :: "string option \<Rightarrow> confidence" where
  "paloAltoConfidence loc =
     (case loc of
        None \<Rightarrow> Low
      | Some l \<Rightarrow>
          if l = [] then Low
          else if includes_str (toLowerCase l) ''palo alto'' then High
          else Medium)"

text \<open>\<open>scrapeXAISite\<close>: cards with an empty name are skipped.\<close>

definition xaiSitePerson :: "string \<Rightarrow> string \<Rightarrow> string \<Rightarrow> PublicResearcher" where
  "xaiSitePerson cardName cardTitle pageUrl =
     \<lparr> name = cardName, title = orUndefined cardTitle, company = Some ''xAI'',
       location = None, locationConfidence = Low,
       githubUrl = None, openAlexUrl = None, homepageUrl = None,
       xaiPageUrl = Some pageUrl, otherSources = [pageUrl],
       isResearchLike = False, researchScore = 0,
       notes = Some ''Found on xAI public site'' \<rparr>"

text \<open>\<open>fetchGitHubContributors\<close>; \<open>commits\<close> is the decimal text of the contribution count.\<close>

definition githubContributorPerson :: "GitHubUser \<Rightarrow> string \<Rightarrow> string \<Rightarrow> PublicResearcher" where
  "githubContributorPerson user repo commits =
     (let name0 = trim (orElseStr (user_name user) (login user));
          location0 = trim (orElseStr (user_location user) []);
          bio0 = toLowerCase (orElseStr (bio user) [])
      in \<lparr> name = name0, title = None, company = Some ''xAI'',
            location = orUndefined location0,
            locationConfidence = assessLocationConfidence location0,
            githubUrl = Some (html_url user), openAlexUrl = None,
            homepageUrl = orElse (blog user) None, xaiPageUrl = None,
            otherSources = [html_url user],
            isResearchLike = isResearchLike_text bio0,
            researchScore = computeResearchScore bio0,
            notes = Some (''Contributor to '' @ repo @ '' ('' @ commits @ '' commits)'') \<rparr>)"

text \<open>\<open>fetchGitHubOrgMembers\<close>\<close>

definition orgMemberPerson :: "GitHubUser \<Rightarrow> PublicResearcher" where
  "orgMemberPerson user =
     (let bio0 = (case bio user of None \<Rightarrow> [] | Some b \<Rightarrow> toLowerCase b)
      in \<lparr> name = orElseStr (user_name user) (login user), title = None,
            company = Some ''xAI'',
            location = user_location user,
            locationConfidence = paloAltoConfidence (user_location user),
            githubUrl = Some (html_url user), openAlexUrl = None,
            homepageUrl = None, xaiPageUrl = None,
            otherSources = [html_url user],
            isResearchLike = isResearchLike_text bio0,
            researchScore = computeResearchScore bio0,
            notes = Some ''GitHub org member'' \<rparr>)"

text \<open>
  \<open>fetchOrgContributors\<close> (githubReposScraper); the regular expression is an alternation of
  plain words, so its test is substring containment of one of them.
\<close>

definition bioPatternWords :: "string list" where
  "bioPatternWords =
     [''research'', ''scientist'', ''ml'', ''ai'', ''deep learning'', ''nlp'', ''vision'',
      ''robotics'']"

definition orgContributorPerson :: "GitHubUser \<Rightarrow> string \<Rightarrow> PublicResearcher" where
  "orgContributorPerson user repoName =
     (let bio0 = toLowerCase (orElseStr (bio user) []);
          name0 = trim (orElseStr (user_name user) (login user));
          location0 = trim (orElseStr (user_location user) []);
          isResearchLike0 = someIncluded bioPatternWords bio0;
          researchScore0 = (if isResearchLike0 then 6 / 10 else 3 / 10)
      in \<lparr> name = name0, title = None, company = Some ''xAI'',
            location = orUndefined location0,
            locationConfidence = paloAltoConfidence (Some location0),
            githubUrl = Some (html_url user), openAlexUrl = None,
            homepageUrl = orElse (blog user) None, xaiPageUrl = None,
            otherSources = [html_url user],
            isResearchLike = isResearchLike0,
            researchScore = researchScore0,
            notes = Some (''GitHub contributor to xai-org/'' @ repoName) \<rparr>)"

text \<open>
  \<open>fetchOpenAlexResearchers\<close>; \<open>worksText\<close> is the decimal text of \<open>worksCount\<close>.
\<close>

definition openAlexPerson ::
  "string \<Rightarrow> nat \<Rightarrow> string option \<Rightarrow> string option \<Rightarrow> string \<Rightarrow> string \<Rightarrow> PublicResearcher" where
  "openAlexPerson displayName worksCount instName country authorId worksText =
     \<lparr> name = displayName, title = None,
       company = Some (orElseStr instName ''xAI''),
       location = orElse country None,
       locationConfidence = (if truthy country then Medium else Low),
       githubUrl = None, openAlexUrl = Some authorId, homepageUrl = None,
       xaiPageUrl = None, otherSources = [authorId],
       isResearchLike = True,
       researchScore = min 1 (3 / 10 + log 10 (real (worksCount + 1)) / 2),
       notes = Some (''OpenAlex author with xAI-like institution (works: '' @ worksText @ '')'') \<rparr>"

text \<open>The remaining connectors push fixed scores; \<open>note\<close> is the text they build.\<close>

definition pressPerson :: "string \<Rightarrow> string list \<Rightarrow> string \<Rightarrow> PublicResearcher" where
  "pressPerson name0 sources note =
     \<lparr> name = name0, title = None, company = Some ''xAI'',
       location = None, locationConfidence = Low,
       githubUrl = None, openAlexUrl = None, homepageUrl = None, xaiPageUrl = None,
       otherSources = take 3 sources,
       isResearchLike = True, researchScore = 5 / 10, notes = Some note \<rparr>"

definition hackerNewsPerson :: "string \<Rightarrow> string \<Rightarrow> PublicResearcher" where
  "hackerNewsPerson username note =
     \<lparr> name = username, title = None, company = Some ''xAI'',
       location = None, locationConfidence = Low,
       githubUrl = None, openAlexUrl = None, homepageUrl = None, xaiPageUrl = None,
       otherSources = [''https://news.ycombinator.com/user?id='' @ username],
       isResearchLike = True, researchScore = 4 / 10, notes = Some note \<rparr>"

definition redditPerson :: "string \<Rightarrow> string \<Rightarrow> PublicResearcher" where
  "redditPerson author subreddit =
     \<lparr> name = author, title = None, company = Some ''xAI'',
       location = None, locationConfidence = Low,
       githubUrl = None, openAlexUrl = None, homepageUrl = None, xaiPageUrl = None,
       otherSources = [''https://reddit.com/u/'' @ author],
       isResearchLike = True, researchScore = 3 / 10,
       notes = Some (''Posted about xAI on r/'' @ subreddit) \<rparr>"

definition tweetPerson :: "string \<Rightarrow> string \<Rightarrow> PublicResearcher" where
  "tweetPerson author url =
     \<lparr> name = author, title = None, company = Some ''xAI'',
       location = None, locationConfidence = Low,
       githubUrl = None, openAlexUrl = None, homepageUrl = None, xaiPageUrl = None,
       otherSources = [url],
       isResearchLike = False, researchScore = 2 / 10,
       notes = Some ''Tweeted about xAI'' \<rparr>"

definition twitterApiPerson :: "string option \<Rightarrow> string \<Rightarrow> string option \<Rightarrow> PublicResearcher" where
  "twitterApiPerson userName username userLocation =
     \<lparr> name = orElseStr userName username, title = None, company = Some ''xAI'',
       location = orElse userLocation None,
       locationConfidence = (if truthy userLocation then Medium else Low),
       githubUrl = None, openAlexUrl = None, homepageUrl = None, xaiPageUrl = None,
       otherSources = [''https://twitter.com/'' @ username],
       isResearchLike = False, researchScore = 3 / 10,
       notes = Some ''Tweeted about xAI'' \<rparr>"

text \<open>The records that some connector can push into \<open>this.people\<close>.\<close>

inductive fromConnector :: "PublicResearcher \<Rightarrow> bool" where
  xaiSite: "cardName \<noteq> [] \<Longrightarrow> fromConnector (xaiSitePerson cardName cardTitle pageUrl)"
| githubContributor: "fromConnector (githubContributorPerson user repo commits)"
| orgMember: "fromConnector (orgMemberPerson user)"
| orgContributor: "fromConnector (orgContributorPerson user repoName)"
| openAlex: "fromConnector (openAlexPerson displayName worksCount instName country authorId worksText)"
| press: "fromConnector (pressPerson name0 sources note)"
| hackerNews: "fromConnector (hackerNewsPerson username note)"
| reddit: "fromConnector (redditPerson author subreddit)"
| tweet: "fromConnector (tweetPerson author url)"
| twitterApi: "fromConnector (twitterApiPerson userName username userLocation)"

subsection \<open>The resolver: \<open>deduplicatePeople\<close>\<close>

definition mergeKey :: "PublicResearcher \<Rightarrow> string" where
  "mergeKey person =
     orElseStr (orElse (githubUrl person) (openAlexUrl person)) (trim (toLowerCase (name person)))"

definition confRank :: "confidence \<Rightarrow> nat" where
  "confRank c = (case c of Low \<Rightarrow> 0 | Medium \<Rightarrow> 1 | High \<Rightarrow> 2)"

text \<open>\<open>xs.filter(Boolean)\<close> on optional strings\<close>

definition filterBoolean :: "string option list \<Rightarrow> string list" where
  "filterBoolean xs = List.map_filter (\<lambda>a. if truthy a then a else None) xs"

text \<open>The else-branch of the loop body: the record stored for an existing key.\<close>

definition mergePerson :: "PublicResearcher \<Rightarrow> PublicResearcher \<Rightarrow> PublicResearcher" where
  "mergePerson existing person =
     \<lparr> name = name existing,
       title = orElse (title existing) (title person),
       company = orElse (company existing) (company person),
       location = orElse (location existing) (location person),
       locationConfidence =
         (if confRank (locationConfidence person) > confRank (locationConfidence existing)
          then locationConfidence person else locationConfidence existing),
       githubUrl = orElse (githubUrl existing) (githubUrl person),
       openAlexUrl = orElse (openAlexUrl existing) (openAlexUrl person),
       homepageUrl = orElse (homepageUrl existing) (homepageUrl person),
       xaiPageUrl = orElse (xaiPageUrl existing) (xaiPageUrl person),
       otherSources = arrayFromSet (otherSources existing @ otherSources person),
       isResearchLike = (isResearchLike existing \<or> isResearchLike person),
       researchScore = min 1 (max (researchScore existing) (researchScore person) + 1 / 10),
       notes = Some (join '' | '' (filterBoolean [notes existing, notes person])) \<rparr>"

text \<open>
  \<open>seen\<close> is a JavaScript \<open>Map\<close>: an association list in insertion order, where setting an
  existing key replaces the value in place.
\<close>

type_synonym seen_map = "(string \<times> PublicResearcher) list"

definition dedupStep :: "seen_map \<Rightarrow> PublicResearcher \<Rightarrow> seen_map" where
  "dedupStep seen person =
     (let key = mergeKey person in
      case map_of seen key of
        None \<Rightarrow> AList.update key person seen
      | Some existing \<Rightarrow> AList.update key (mergePerson existing person) seen)"

definition dedupSeen :: "PublicResearcher list \<Rightarrow> seen_map" where
  "dedupSeen people = foldl dedupStep [] people"

definition deduplicatePeople :: "PublicResearcher list \<Rightarrow> PublicResearcher list" where
  "deduplicatePeople people = map snd (dedupSeen people)"

subsection \<open>The Bay Area filter of \<open>exportResults\<close>\<close>

definition bayAreaKeywords :: "string list" where
  "bayAreaKeywords =
     [''palo alto'', ''bay area'', ''san francisco'', ''mountain view'', ''menlo park'',
      ''sunnyvale'', ''redwood city'', ''cupertino'', ''silicon valley'', ''san jose'',
      ''oakland'', ''berkeley'', ''fremont'', ''santa clara'', ''sf,'', ''california'', ''ca'']"

definition isBayArea :: "PublicResearcher \<Rightarrow> bool" where
  "isBayArea p =
     (let loc = toLowerCase (orElseStr (location p) []) in someIncluded bayAreaKeywords loc)"

definition bayAreaPeople :: "PublicResearcher list \<Rightarrow> PublicResearcher list" where
  "bayAreaPeople people = filter isBayArea (deduplicatePeople people)"

subsection \<open>Auxiliary notions for the statements\<close>

text \<open>
  The identity that a group of candidates with one key folds into: the first one seeds it,
  each later one is merged in arrival order.
\<close>

fun mergeAll :: "PublicResearcher list \<Rightarrow> PublicResearcher option" where
  "mergeAll [] = None"
| "mergeAll (p # ps) = Some (foldl mergePerson p ps)"

text \<open>Two candidates carry different non-empty values in one link slot.\<close>

definition conflicting :: "string option \<Rightarrow> string option \<Rightarrow> bool" where
  "conflicting x y = (truthy x \<and> truthy y \<and> x \<noteq> y)"

text \<open>
  The tiered table in the words of the specification: lower-case the text, the first tier
  with a keyword in it wins, otherwise low.
\<close>

definition tierByTable :: "string \<Rightarrow> confidence" where
  "tierByTable locationText =
     (let loc = toLowerCase locationText in
      if someIncluded highConfidenceKeywords loc then High
      else if someIncluded mediumConfidenceKeywords loc then Medium
      else Low)"

text \<open>Example inputs: one GitHub account seen by two connectors, and name-keyed records.\<close>

definition janeUser :: GitHubUser where
  "janeUser =
     \<lparr> login = ''jane'', user_name = Some ''Jane Doe'',
       user_location = Some ''Palo Alto, CA'',
       bio = Some ''Research scientist working on ML'',
       html_url = ''https://github.com/jane'', blog = None \<rparr>"

definition janeBare :: GitHubUser where
  "janeBare =
     \<lparr> login = ''jane'', user_name = Some ''jane doe'', user_location = None,
       bio = None, html_url = ''https://github.com/jane'', blog = None \<rparr>"

definition candA :: PublicResearcher where
  "candA = githubContributorPerson janeUser ''xai-org/grok-1'' ''3''"

definition candB :: PublicResearcher where
  "candB = orgMemberPerson janeBare"

definition pressJane :: PublicResearcher where
  "pressJane = pressPerson ''Jane Doe'' [''https://news.example/a''] ''Mentioned as xAI employee in 2 news articles''"

definition hnJane :: PublicResearcher where
  "hnJane = hackerNewsPerson ''jane doe '' ''Active on HN discussing xAI (10 karma, 2 posts)''"

definition menloUser :: GitHubUser where
  "menloUser =
     \<lparr> login = ''mia'', user_name = Some ''Mia Park'',
       user_location = Some ''Menlo Park '', bio = None,
       html_url = ''https://github.com/mia'', blog = None \<rparr>"

definition tokyoIdentity :: PublicResearcher where
  "tokyoIdentity =
     \<lparr> name = ''Ken Ito'', title = None, company = Some ''xAI'',
       location = Some ''Tokyo'', locationConfidence = Medium,
       githubUrl = Some ''https://github.com/ken'', openAlexUrl = None,
       homepageUrl = None, xaiPageUrl = None,
       otherSources = [''https://github.com/ken''],
       isResearchLike = False, researchScore = 2 / 10, notes = None \<rparr>"

definition paloAltoCandidate :: PublicResearcher where
  "paloAltoCandidate =
     \<lparr> name = ''Ken Ito'', title = None, company = Some ''xAI'',
       location = Some ''Palo Alto, CA'', locationConfidence = High,
       githubUrl = Some ''https://github.com/ken'', openAlexUrl = None,
       homepageUrl = None, xaiPageUrl = None,
       otherSources = [''https://github.com/ken''],
       isResearchLike = False, researchScore = 2 / 10, notes = None \<rparr>"

definition annUser :: GitHubUser where
  "annUser = \<lparr> login = ''ann'', user_name = Some ''Ann Lee'', user_location = None,
       bio = None, html_url = ''https://github.com/ann'', blog = Some ''https://lab.example'' \<rparr>"

definition bobUser :: GitHubUser where
  "bobUser = \<lparr> login = ''bob'', user_name = Some ''Bob Ray'', user_location = None,
       bio = None, html_url = ''https://github.com/bob'', blog = Some ''https://lab.example'' \<rparr>"

definition tokyoUser :: GitHubUser where
  "tokyoUser =
     \<lparr> login = ''ken'', user_name = Some ''Ken Ito'', user_location = Some ''Tokyo'',
       bio = None, html_url = ''https://github.com/ken'', blog = None \<rparr>"

definition unknownResearcher :: Researcher where
  "unknownResearcher =
     \<lparr> Researcher.name = ''Jane Doe'', title = None, location = None, githubUsername = None,
       twitterUsername = None, email = None, source = ''GitHub'',
       sourceUrl = ''https://github.com/jane'', confidence = Medium, researchArea = None \<rparr>"

text \<open>The score of a record lies in the closed unit interval.\<close>

definition scoreInRange :: "PublicResearcher \<Rightarrow> bool" where
  "scoreInRange p = (0 \<le> researchScore p \<and> researchScore p \<le> 1)"

text \<open>
  The record stored under a candidate's key once the loop body has processed it on the
  working set \<open>seen\<close>.
\<close>

definition storedFor :: "seen_map \<Rightarrow> PublicResearcher \<Rightarrow> PublicResearcher" where
  "storedFor seen c =
     (case map_of seen (mergeKey c) of None \<Rightarrow> c | Some e \<Rightarrow> mergePerson e c)"

text \<open>The non-empty value of a link slot, or the empty string when the slot is falsy.\<close>

definition linkValue :: "string option \<Rightarrow> string" where
  "linkValue x = orElseStr x []"

text \<open>Two snapshots of one account whose profile homepage changed between fetches.\<close>

definition janeBlogA :: GitHubUser where
  "janeBlogA = janeUser\<lparr>blog := Some ''https://jane.example''\<rparr>"

definition janeBlogB :: GitHubUser where
  "janeBlogB = janeUser\<lparr>blog := Some ''https://jane.dev''\<rparr>"

definition candBlogA :: PublicResearcher where
  "candBlogA = githubContributorPerson janeBlogA ''xai-org/grok-1'' ''3''"

definition candBlogB :: PublicResearcher where
  "candBlogB = orgContributorPerson janeBlogB ''grok-1''"




section \<open>Properties\<close>

lemma includes_str_sublist: "includes_str t k \<longleftrightarrow> sublist k t"
  by (induction t) (auto simp: sublist_Cons_right)

lemma length_researchKeywords: "length researchKeywords = 9"
  by (simp add: researchKeywords_def)

lemma filter_nonempty_iff: "0 < length (filter P xs) \<longleftrightarrow> list_ex P xs"
  by (induction xs) auto

text \<open>
  Claim C10. For every evidence text the research score is at least 0.2, and it is strictly
  above 0.2 exactly when the keyword classifier \<open>isResearchLike\<close> accepts the text: both
  look for the same keywords by substring containment.
\<close>

theorem computeResearchScore_floor:
  "2 / 10 \<le> computeResearchScore t \<and>
   (2 / 10 < computeResearchScore t \<longleftrightarrow> isResearchLike_text t)"
proof -
  define hits where "hits = length (filter (\<lambda>k. includes_str t k) researchKeywords)"
  have score: "computeResearchScore t = min 1 (real hits / 9 + 2 / 10)"
    by (simp add: computeResearchScore_def hits_def length_researchKeywords)
  have like: "isResearchLike_text t \<longleftrightarrow> 0 < hits"
    by (simp add: isResearchLike_text_def someIncluded_def hits_def filter_nonempty_iff
        del: length_greater_0_conv)
  have "2 / 10 \<le> min 1 (real hits / 9 + 2 / 10)"
    by simp
  moreover have "2 / 10 < min 1 (real hits / 9 + 2 / 10) \<longleftrightarrow> 0 < hits"
    by simp
  ultimately show ?thesis
    using score like by simp
qed

theorem computeResearchScore_floor_witness:
  "computeResearchScore [] = 2 / 10 \<and> \<not> isResearchLike_text [] \<and>
   isResearchLike_text ''research scientist working on ml'' \<and>
   2 / 10 < computeResearchScore ''research scientist working on ml''"
proof -
  have a: "\<not> isResearchLike_text []"
    by code_simp
  have b: "isResearchLike_text ''research scientist working on ml''"
    by code_simp
  have "computeResearchScore [] = 2 / 10"
    using computeResearchScore_floor [of "[]"] a by simp
  moreover have "2 / 10 < computeResearchScore ''research scientist working on ml''"
    using computeResearchScore_floor [of "''research scientist working on ml''"] b by blast
  ultimately show ?thesis
    using a b by blast
qed

subsection \<open>The working set as a function of the candidate list\<close>

lemma mergeAll_snoc:
  "mergeAll (ps @ [p]) = Some (case mergeAll ps of None \<Rightarrow> p | Some e \<Rightarrow> mergePerson e p)"
  by (cases ps) simp_all

lemma map_of_dedupStep:
  "map_of (dedupStep seen p) k =
     (if k = mergeKey p
      then Some (case map_of seen k of None \<Rightarrow> p | Some e \<Rightarrow> mergePerson e p)
      else map_of seen k)"
  by (simp add: dedupStep_def Let_def update_conv' split: option.split)

lemma dedupStep_existing:
  "map_of seen (mergeKey p) = Some e \<Longrightarrow>
   map_of (dedupStep seen p) (mergeKey p) = Some (mergePerson e p)"
  by (simp add: map_of_dedupStep)

lemma dedupSeen_snoc: "dedupSeen (ps @ [p]) = dedupStep (dedupSeen ps) p"
  by (simp add: dedupSeen_def)

lemma map_of_dedupSeen:
  "map_of (dedupSeen ps) k = mergeAll (filter (\<lambda>p. mergeKey p = k) ps)"
proof (induction ps arbitrary: k rule: rev_induct)
  case Nil
  show ?case by (simp add: dedupSeen_def)
next
  case (snoc p ps)
  show ?case
    by (simp add: dedupSeen_snoc map_of_dedupStep mergeAll_snoc snoc.IH)
qed

lemma keys_dedupStep:
  "map fst (dedupStep seen p) = setAdd (map fst seen) (mergeKey p)"
  by (simp add: dedupStep_def Let_def update_keys setAdd_def split: option.split)

lemma keys_dedupSeen: "map fst (dedupSeen ps) = arrayFromSet (map mergeKey ps)"
  by (induction ps rule: rev_induct)
     (simp_all add: dedupSeen_snoc keys_dedupStep arrayFromSet_def dedupSeen_def)

lemma deduplicatePeople_pair:
  "deduplicatePeople [a, b] = (if mergeKey a = mergeKey b then [mergePerson a b] else [a, b])"
  by (simp add: deduplicatePeople_def dedupSeen_def dedupStep_def)

lemma set_update_subset: "set (AList.update k v al) \<subseteq> insert (k, v) (set al)"
  by (induction al) auto

lemma mergeKey_candA: "mergeKey candA = ''https://github.com/jane''"
  by code_simp

lemma mergeKey_candB: "mergeKey candB = ''https://github.com/jane''"
  by code_simp

subsection \<open>Which candidates merge\<close>

text \<open>
  Claim C1, amended. Two candidates of one run end in the same identity exactly when their
  merge keys are equal: the identity stored under a key is the fold, in arrival order, of
  the candidates with that key, and the keys of the working set are the distinct keys of
  the run in order of first appearance. Candidates with the same non-empty GitHub link
  merge; candidates without GitHub and OpenAlex links merge exactly when their lower-cased,
  trimmed names are equal; location and evidence fields do not enter the key. A shared
  link that is not the key (a homepage, or an OpenAlex link next to a GitHub link) does not
  merge two candidates.
\<close>

theorem merged_iff_same_key:
  "map_of (dedupSeen ps) k = mergeAll (filter (\<lambda>p. mergeKey p = k) ps) \<and>
   map fst (dedupSeen ps) = arrayFromSet (map mergeKey ps) \<and>
   deduplicatePeople [a, b] = (if mergeKey a = mergeKey b then [mergePerson a b] else [a, b]) \<and>
   (length (deduplicatePeople [a, b]) = 1) = (mergeKey a = mergeKey b) \<and>
   (truthy (githubUrl a) \<and> githubUrl a = githubUrl b \<longrightarrow> mergeKey a = mergeKey b) \<and>
   (\<not> truthy (githubUrl c) \<and> \<not> truthy (openAlexUrl c) \<and>
    \<not> truthy (githubUrl d) \<and> \<not> truthy (openAlexUrl d) \<longrightarrow>
      (mergeKey c = mergeKey d) =
      (trim (toLowerCase (name c)) = trim (toLowerCase (name d)))) \<and>
   mergeKey (p\<lparr>location := l, locationConfidence := lc, isResearchLike := r,
      researchScore := s, notes := n\<rparr>) = mergeKey p"
proof -
  have key: "\<And>q. mergeKey q =
     (if truthy (githubUrl q) then the (githubUrl q)
      else if truthy (openAlexUrl q) then the (openAlexUrl q)
      else trim (toLowerCase (name q)))"
    by (auto simp: mergeKey_def orElse_def orElseStr_def truthy_def split: option.splits)
  have len: "(length (deduplicatePeople [a, b]) = 1) = (mergeKey a = mergeKey b)"
    by (simp add: deduplicatePeople_pair)
  have gh: "truthy (githubUrl a) \<and> githubUrl a = githubUrl b \<longrightarrow> mergeKey a = mergeKey b"
    by (auto simp: key)
  have nm: "\<not> truthy (githubUrl c) \<and> \<not> truthy (openAlexUrl c) \<and>
    \<not> truthy (githubUrl d) \<and> \<not> truthy (openAlexUrl d) \<longrightarrow>
      (mergeKey c = mergeKey d) =
      (trim (toLowerCase (name c)) = trim (toLowerCase (name d)))"
    by (simp add: key)
  have other: "mergeKey (p\<lparr>location := l, locationConfidence := lc, isResearchLike := r,
      researchScore := s, notes := n\<rparr>) = mergeKey p"
    by (simp add: mergeKey_def)
  show ?thesis
    by (intro conjI map_of_dedupSeen keys_dedupSeen deduplicatePeople_pair len gh nm other)
qed

theorem merged_iff_same_key_witness:
  "truthy (githubUrl candA) \<and> githubUrl candA = githubUrl candB \<and>
   deduplicatePeople [candA, candB] = [mergePerson candA candB] \<and>
   \<not> truthy (githubUrl pressJane) \<and> \<not> truthy (openAlexUrl pressJane) \<and>
   \<not> truthy (githubUrl hnJane) \<and> \<not> truthy (openAlexUrl hnJane) \<and>
   trim (toLowerCase (name pressJane)) = trim (toLowerCase (name hnJane)) \<and>
   deduplicatePeople [pressJane, hnJane] = [mergePerson pressJane hnJane]"
proof -
  have h1: "truthy (githubUrl candA) \<and> githubUrl candA = githubUrl candB"
    by code_simp
  have h2: "\<not> truthy (githubUrl pressJane) \<and> \<not> truthy (openAlexUrl pressJane) \<and>
   \<not> truthy (githubUrl hnJane) \<and> \<not> truthy (openAlexUrl hnJane)"
    by code_simp
  have h3: "trim (toLowerCase (name pressJane)) = trim (toLowerCase (name hnJane))"
    by code_simp
  note t1 = merged_iff_same_key [of _ _ candA candB pressJane hnJane]
  note t2 = merged_iff_same_key [of _ _ pressJane hnJane]
  have k1: "mergeKey candA = mergeKey candB"
    using t1 h1 by blast
  have k2: "mergeKey pressJane = mergeKey hnJane"
    using t1 h2 h3 by blast
  have d1: "deduplicatePeople [candA, candB] = [mergePerson candA candB]"
    using t1 k1 by simp
  have d2: "deduplicatePeople [pressJane, hnJane] = [mergePerson pressJane hnJane]"
    using t2 k2 by simp
  show ?thesis
    using h1 h2 h3 d1 d2 by blast
qed

text \<open>
  Two contributors with different GitHub links and the same homepage link stay two
  identities, although they share an identity-link value.
\<close>

theorem shared_homepage_not_merged:
  "homepageUrl (githubContributorPerson annUser ''xai-org/grok-1'' ''1'') = Some ''https://lab.example'' \<and>
   homepageUrl (githubContributorPerson bobUser ''xai-org/grok-1'' ''1'') = Some ''https://lab.example'' \<and>
   length (deduplicatePeople [githubContributorPerson annUser ''xai-org/grok-1'' ''1'',
                              githubContributorPerson bobUser ''xai-org/grok-1'' ''1'']) = 2"
  by code_simp












subsection \<open>What a merge stores\<close>

text \<open>
  Claim C3, amended. When a candidate merges into an existing identity, the stored
  location confidence becomes the candidate's tier exactly when that tier is strictly
  higher, and stays otherwise; the location text is kept whenever the stored one is
  non-empty and is taken from the candidate otherwise, whatever the tiers are. Merging a
  low-confidence candidate into a high-confidence identity that has a location text leaves
  both fields unchanged.
\<close>

theorem location_update:
  assumes "map_of seen (mergeKey p) = Some e"
  shows "map_of (dedupStep seen p) (mergeKey p) = Some (mergePerson e p) \<and>
    locationConfidence (mergePerson e p) =
      (if confRank (locationConfidence e) < confRank (locationConfidence p)
       then locationConfidence p else locationConfidence e) \<and>
    location (mergePerson e p) = (if truthy (location e) then location e else location p) \<and>
    (locationConfidence e = High \<and> locationConfidence p = Low \<and> truthy (location e) \<longrightarrow>
       locationConfidence (mergePerson e p) = High \<and> location (mergePerson e p) = location e)"
  using assms
  by (simp add: dedupStep_existing mergePerson_def orElse_def confRank_def)

theorem location_update_witness:
  "map_of (dedupSeen [candA]) (mergeKey candB) = Some candA \<and>
   locationConfidence candA = High \<and> locationConfidence candB = Low \<and> truthy (location candA) \<and>
   map_of (dedupStep (dedupSeen [candA]) candB) (mergeKey candB) = Some (mergePerson candA candB) \<and>
   locationConfidence (mergePerson candA candB) = High \<and>
   location (mergePerson candA candB) = Some ''Palo Alto, CA''"
proof -
  have h: "map_of (dedupSeen [candA]) (mergeKey candB) = Some candA"
    by (simp add: dedupSeen_def dedupStep_def mergeKey_candA mergeKey_candB)
  have c: "locationConfidence candA = High \<and> locationConfidence candB = Low \<and>
           truthy (location candA) \<and> location candA = Some ''Palo Alto, CA''"
    by code_simp
  show ?thesis
    using h c location_update [OF h] by (simp add: confRank_def truthy_def)
qed

text \<open>
  A candidate of strictly higher tier raises the tier and leaves the stored location text:
  the pair is not replaced together.
\<close>

theorem location_kept_tier_raised:
  "mergeKey tokyoIdentity = mergeKey paloAltoCandidate \<and>
   confRank (locationConfidence tokyoIdentity) < confRank (locationConfidence paloAltoCandidate) \<and>
   map location (deduplicatePeople [tokyoIdentity, paloAltoCandidate]) = [Some ''Tokyo''] \<and>
   map locationConfidence (deduplicatePeople [tokyoIdentity, paloAltoCandidate]) = [High] \<and>
   map location (deduplicatePeople
     [orgMemberPerson menloUser, githubContributorPerson menloUser ''xai-org/grok-1'' ''2''])
     = [Some ''Menlo Park ''] \<and>
   location (githubContributorPerson menloUser ''xai-org/grok-1'' ''2'') = Some ''Menlo Park'' \<and>
   locationConfidence (orgMemberPerson menloUser) = Medium \<and>
   locationConfidence (githubContributorPerson menloUser ''xai-org/grok-1'' ''2'') = High"
  by code_simp

text \<open>
  Claim C4. When a candidate with score \<open>s\<close> merges into an existing identity with score
  \<open>e\<close>, the stored score is \<open>min 1 (max e s + 0.1)\<close>.
\<close>

theorem merge_score:
  assumes "map_of seen (mergeKey p) = Some e"
  shows "map_option researchScore (map_of (dedupStep seen p) (mergeKey p)) =
     Some (min 1 (max (researchScore e) (researchScore p) + 1 / 10))"
  using assms by (simp add: dedupStep_existing mergePerson_def)

theorem merge_score_witness:
  "map_of (dedupSeen [candA]) (mergeKey candB) = Some candA \<and>
   researchScore candA = 8 / 15 \<and> researchScore candB = 2 / 10 \<and>
   map_option researchScore (map_of (dedupStep (dedupSeen [candA]) candB) (mergeKey candB)) =
     Some (19 / 30)"
proof -
  have h: "map_of (dedupSeen [candA]) (mergeKey candB) = Some candA"
    by (simp add: dedupSeen_def dedupStep_def mergeKey_candA mergeKey_candB)
  have s: "researchScore candA = 8 / 15 \<and> researchScore candB = 2 / 10"
    by code_simp
  have "map_option researchScore (map_of (dedupStep (dedupSeen [candA]) candB) (mergeKey candB)) =
     Some (min 1 (max (8 / 15) (2 / 10) + 1 / 10))"
    using merge_score [OF h] s by simp
  then show ?thesis
    using h s by simp
qed

subsection \<open>Location classification and the location filters\<close>

lemma toLowerCase_Nil: "toLowerCase [] = []"
  by (simp add: toLowerCase_def)

lemma someIncluded_bayArea:
  "someIncluded bayAreaKeywords t =
     (someIncluded highConfidenceKeywords t \<or> someIncluded mediumConfidenceKeywords t)"
  unfolding someIncluded_def bayAreaKeywords_def highConfidenceKeywords_def
    mediumConfidenceKeywords_def
  by (simp only: list_ex_Nil_iff list_ex_Cons_iff) blast

lemma no_keyword_in_empty:
  "\<not> someIncluded highConfidenceKeywords []" "\<not> someIncluded mediumConfidenceKeywords []"
  by (simp_all add: someIncluded_def highConfidenceKeywords_def mediumConfidenceKeywords_def)

lemma assess_is_table: "assessLocationConfidence t = tierByTable t"
  by (simp add: assessLocationConfidence_def tierByTable_def Let_def toLowerCase_Nil
      no_keyword_in_empty)

lemma isBayArea_table:
  "isBayArea p = (tierByTable (orElseStr (location p) []) \<noteq> Low)"
  by (simp add: isBayArea_def tierByTable_def Let_def
      someIncluded_bayArea)

lemma unknown_not_bayArea: "\<not> truthy (location p) \<Longrightarrow> \<not> isBayArea p"
  by (auto simp: isBayArea_table tierByTable_def Let_def toLowerCase_Nil no_keyword_in_empty
      truthy_def orElseStr_def split: option.splits)

text \<open>
  Claim C5, amended. \<open>filterByPaloAlto\<close> keeps exactly the researchers whose lower-cased
  location contains \<open>palo alto\<close> or \<open>bay area\<close> and those whose location is absent or
  empty, so it never excludes an unknown location; it has no confidence threshold. The Bay
  Area selection of \<open>exportResults\<close> keeps exactly the deduplicated identities whose
  location text the keyword table classifies above low, whatever their stored
  \<open>locationConfidence\<close> is, and it does not keep an identity whose location is unknown.
\<close>

theorem location_filters:
  "(r \<in> set (filterByPaloAlto rs)) =
     (r \<in> set rs \<and>
      (locationIncludes (Researcher.location r) ''palo alto'' \<or>
       locationIncludes (Researcher.location r) ''bay area'' \<or>
       \<not> truthy (Researcher.location r))) \<and>
   (r0 \<in> set rs \<and> \<not> truthy (Researcher.location r0) \<longrightarrow> r0 \<in> set (filterByPaloAlto rs)) \<and>
   (q \<in> set (bayAreaPeople ps)) =
     (q \<in> set (deduplicatePeople ps) \<and> tierByTable (orElseStr (location q) []) \<noteq> Low) \<and>
   (\<not> truthy (location p) \<longrightarrow> \<not> isBayArea p) \<and>
   isBayArea (p\<lparr>locationConfidence := c\<rparr>) = isBayArea p"
proof -
  have a: "(r \<in> set (filterByPaloAlto rs)) =
     (r \<in> set rs \<and>
      (locationIncludes (Researcher.location r) ''palo alto'' \<or>
       locationIncludes (Researcher.location r) ''bay area'' \<or>
       \<not> truthy (Researcher.location r)))"
    by (simp add: filterByPaloAlto_def keepByPaloAlto_def)
  have b: "r0 \<in> set rs \<and> \<not> truthy (Researcher.location r0) \<longrightarrow> r0 \<in> set (filterByPaloAlto rs)"
    by (simp add: filterByPaloAlto_def keepByPaloAlto_def)
  have c: "(q \<in> set (bayAreaPeople ps)) =
     (q \<in> set (deduplicatePeople ps) \<and> tierByTable (orElseStr (location q) []) \<noteq> Low)"
    by (simp add: bayAreaPeople_def isBayArea_table)
  have d: "\<not> truthy (location p) \<longrightarrow> \<not> isBayArea p"
    by (simp add: unknown_not_bayArea)
  have e: "isBayArea (p\<lparr>locationConfidence := c\<rparr>) = isBayArea p"
    by (simp add: isBayArea_def)
  show ?thesis
    by (intro conjI a b c d e)
qed

theorem location_filters_witness:
  "unknownResearcher \<in> set [unknownResearcher] \<and> \<not> truthy (Researcher.location unknownResearcher) \<and>
   unknownResearcher \<in> set (filterByPaloAlto [unknownResearcher]) \<and>
   \<not> truthy (location pressJane) \<and> \<not> isBayArea pressJane"
proof -
  have h1: "unknownResearcher \<in> set [unknownResearcher] \<and>
            \<not> truthy (Researcher.location unknownResearcher)"
    by (simp add: unknownResearcher_def truthy_def)
  have h2: "\<not> truthy (location pressJane)"
    by (simp add: pressJane_def pressPerson_def truthy_def)
  note t = location_filters [where ?r0.0 = unknownResearcher and rs = "[unknownResearcher]"
      and p = pressJane]
  have c1: "unknownResearcher \<in> set (filterByPaloAlto [unknownResearcher])"
    using t h1 by blast
  have c2: "\<not> isBayArea pressJane"
    using t h2 by blast
  show ?thesis
    using h1 h2 c1 c2 by blast
qed

text \<open>
  The export filter drops an identity with unknown location, and drops identities whose
  stored confidence is medium or high when their location text has no Bay Area keyword.
\<close>

theorem export_filter_drops_unknown:
  "location pressJane = None \<and> deduplicatePeople [pressJane] = [pressJane] \<and>
   bayAreaPeople [pressJane] = [] \<and>
   map location (deduplicatePeople [orgMemberPerson tokyoUser]) = [Some ''Tokyo''] \<and>
   map locationConfidence (deduplicatePeople [orgMemberPerson tokyoUser]) = [Medium] \<and>
   bayAreaPeople [orgMemberPerson tokyoUser] = [] \<and>
   map locationConfidence (deduplicatePeople [tokyoIdentity, paloAltoCandidate]) = [High] \<and>
   bayAreaPeople [tokyoIdentity, paloAltoCandidate] = []"
  by code_simp

text \<open>
  Claim C6, amended. \<open>assessLocationConfidence\<close> is the tiered table: high if the
  lower-cased text contains a high-tier keyword, otherwise medium if it contains a
  medium-tier keyword, otherwise low, also for the empty text. The candidates of
  \<open>fetchGitHubContributors\<close> take their confidence from it. The org-member and
  org-contributor candidates use another rule (low for an empty location, high if it
  contains \<open>palo alto\<close>, medium otherwise), and the OpenAlex and Twitter candidates get
  medium for any non-empty location and low otherwise.
\<close>

theorem confidence_rules:
  "assessLocationConfidence t = tierByTable t \<and>
   locationConfidence (githubContributorPerson user repo commits) =
     tierByTable (trim (orElseStr (user_location user) [])) \<and>
   locationConfidence (orgMemberPerson user) = paloAltoConfidence (user_location user) \<and>
   locationConfidence (orgContributorPerson user repoName) =
     paloAltoConfidence (Some (trim (orElseStr (user_location user) []))) \<and>
   paloAltoConfidence None = Low \<and>
   paloAltoConfidence (Some l) =
     (if l = [] then Low
      else if includes_str (toLowerCase l) ''palo alto'' then High else Medium) \<and>
   locationConfidence (openAlexPerson displayName worksCount instName country authorId worksText) =
     (if truthy country then Medium else Low) \<and>
   locationConfidence (twitterApiPerson userName username userLocation) =
     (if truthy userLocation then Medium else Low)"
  by (simp add: assess_is_table githubContributorPerson_def orgMemberPerson_def
      orgContributorPerson_def openAlexPerson_def twitterApiPerson_def paloAltoConfidence_def
      Let_def)

theorem confidence_rules_witness:
  "assessLocationConfidence ''Menlo Park, CA'' = High \<and>
   tierByTable ''Menlo Park, CA'' = High \<and>
   assessLocationConfidence ''Tokyo'' = Low \<and>
   locationConfidence (githubContributorPerson janeUser ''xai-org/grok-1'' ''3'') = High"
proof -
  have "tierByTable ''Menlo Park, CA'' = High" "tierByTable ''Tokyo'' = Low"
       "tierByTable (trim (orElseStr (user_location janeUser) [])) = High"
    by code_simp+
  then show ?thesis
    using confidence_rules [of "''Menlo Park, CA''" janeUser "''xai-org/grok-1''" "''3''"]
      confidence_rules [of "''Tokyo''"]
    by simp
qed

text \<open>
  An org member located in Tokyo is medium although the table says low, and one in Menlo
  Park is medium although the table says high.
\<close>

theorem org_member_not_by_table:
  "location (orgMemberPerson tokyoUser) = Some ''Tokyo'' \<and>
   locationConfidence (orgMemberPerson tokyoUser) = Medium \<and>
   assessLocationConfidence ''Tokyo'' = Low \<and>
   location (orgMemberPerson menloUser) = Some ''Menlo Park '' \<and>
   locationConfidence (orgMemberPerson menloUser) = Medium \<and>
   assessLocationConfidence ''Menlo Park '' = High"
  by code_simp

subsection \<open>Score bounds\<close>

lemma computeResearchScore_range:
  "0 \<le> computeResearchScore t \<and> computeResearchScore t \<le> 1"
  by (simp add: computeResearchScore_def Let_def)

lemma fromConnector_scoreInRange: "fromConnector p \<Longrightarrow> scoreInRange p"
proof (induction rule: fromConnector.induct)
  case (openAlex displayName worksCount instName country authorId worksText)
  have "0 \<le> log 10 (real (worksCount + 1))"
    by simp
  then show ?case
    by (simp add: scoreInRange_def openAlexPerson_def)
qed (simp_all add: scoreInRange_def xaiSitePerson_def githubContributorPerson_def
      orgMemberPerson_def orgContributorPerson_def pressPerson_def hackerNewsPerson_def
      redditPerson_def tweetPerson_def twitterApiPerson_def Let_def computeResearchScore_range)

lemma mergePerson_scoreInRange:
  "scoreInRange e \<Longrightarrow> scoreInRange (mergePerson e p)"
  by (auto simp: scoreInRange_def mergePerson_def max_def)

lemma dedupStep_scoreInRange:
  assumes "\<forall>v \<in> snd ` set seen. scoreInRange v" and "scoreInRange p"
  shows "\<forall>v \<in> snd ` set (dedupStep seen p). scoreInRange v"
proof (cases "map_of seen (mergeKey p)")
  case None
  then have "dedupStep seen p = AList.update (mergeKey p) p seen"
    by (simp add: dedupStep_def)
  then show ?thesis
    using assms set_update_subset [of "mergeKey p" p seen] by fastforce
next
  case (Some e)
  then have "(mergeKey p, e) \<in> set seen"
    by (rule map_of_SomeD)
  then have "scoreInRange e"
    using assms(1) by force
  then have m: "scoreInRange (mergePerson e p)"
    by (rule mergePerson_scoreInRange)
  have "dedupStep seen p = AList.update (mergeKey p) (mergePerson e p) seen"
    using Some by (simp add: dedupStep_def)
  then show ?thesis
    using assms(1) m set_update_subset [of "mergeKey p" "mergePerson e p" seen] by fastforce
qed

lemma dedupSeen_scoreInRange:
  "\<forall>p \<in> set ps. scoreInRange p \<Longrightarrow> \<forall>v \<in> snd ` set (dedupSeen ps). scoreInRange v"
proof (induction ps rule: rev_induct)
  case Nil
  show ?case by (simp add: dedupSeen_def)
next
  case (snoc p ps)
  then show ?case
    by (simp only: dedupSeen_snoc) (rule dedupStep_scoreInRange, simp_all)
qed

lemma deduplicatePeople_scoreInRange:
  "\<forall>p \<in> set ps. scoreInRange p \<Longrightarrow> \<forall>q \<in> set (deduplicatePeople ps). scoreInRange q"
  using dedupSeen_scoreInRange [of ps] by (simp add: deduplicatePeople_def)

lemma iterate_scoreInRange:
  "\<forall>p \<in> set ps. scoreInRange p \<Longrightarrow> \<forall>q \<in> set ((deduplicatePeople ^^ n) ps). scoreInRange q"
  by (induction n) (simp_all add: deduplicatePeople_scoreInRange)

text \<open>
  Claim C7. Whatever candidates the connectors push, every record of the working set has
  its research score in the closed interval from 0 to 1: before deduplication, after it,
  and after any number of further deduplication passes.
\<close>

theorem score_bounds:
  assumes "\<forall>p \<in> set people. fromConnector p"
  shows "\<forall>q \<in> set ((deduplicatePeople ^^ n) people). 0 \<le> researchScore q \<and> researchScore q \<le> 1"
proof -
  have "\<forall>p \<in> set people. scoreInRange p"
    using assms fromConnector_scoreInRange by blast
  then have "\<forall>q \<in> set ((deduplicatePeople ^^ n) people). scoreInRange q"
    by (rule iterate_scoreInRange)
  then show ?thesis
    by (simp add: scoreInRange_def)
qed

theorem score_bounds_witness:
  "fromConnector candA \<and> fromConnector candB \<and> fromConnector pressJane \<and> fromConnector hnJane \<and>
   map researchScore (deduplicatePeople [candA, candB, pressJane, hnJane, pressJane]) = [19 / 30, 7 / 10] \<and>
   map researchScore (deduplicatePeople (replicate 8 pressJane)) = [1] \<and>
   list_all (\<lambda>q. 0 \<le> researchScore q \<and> researchScore q \<le> 1)
     (deduplicatePeople [candA, candB, pressJane, hnJane, pressJane])"
proof -
  have f: "fromConnector candA" "fromConnector candB" "fromConnector pressJane"
      "fromConnector hnJane"
    unfolding candA_def candB_def pressJane_def hnJane_def
    by (rule fromConnector.intros)+
  then have h: "\<forall>p \<in> set [candA, candB, pressJane, hnJane, pressJane]. fromConnector p"
    by simp
  have v: "map researchScore (deduplicatePeople [candA, candB, pressJane, hnJane, pressJane]) = [19 / 30, 7 / 10]"
    by code_simp
  have w: "map researchScore (deduplicatePeople (replicate 8 pressJane)) = [1]"
    by code_simp
  have "list_all (\<lambda>q. 0 \<le> researchScore q \<and> researchScore q \<le> 1)
     (deduplicatePeople [candA, candB, pressJane, hnJane, pressJane])"
    using score_bounds [OF h, of 1] by (simp add: list_all_iff)
  then show ?thesis
    using f v w by simp
qed

subsection \<open>Merging a candidate twice, and in either order\<close>

lemma set_foldl_setAdd: "set (foldl setAdd acc xs) = set acc \<union> set xs"
  by (induction xs arbitrary: acc) (auto simp: setAdd_def)

lemma foldl_setAdd_absorb: "set ys \<subseteq> set acc \<Longrightarrow> foldl setAdd acc ys = acc"
  by (induction ys) (simp_all add: setAdd_def)

lemma foldl_setAdd_distinct:
  "distinct xs \<Longrightarrow> set xs \<inter> set acc = {} \<Longrightarrow> foldl setAdd acc xs = acc @ xs"
  by (induction xs arbitrary: acc) (auto simp: setAdd_def)

lemma set_arrayFromSet: "set (arrayFromSet xs) = set xs"
  by (simp add: arrayFromSet_def set_foldl_setAdd)

lemma arrayFromSet_distinct: "distinct xs \<Longrightarrow> arrayFromSet xs = xs"
  by (simp add: arrayFromSet_def foldl_setAdd_distinct)

lemma arrayFromSet_absorb: "set ys \<subseteq> set xs \<Longrightarrow> arrayFromSet (xs @ ys) = arrayFromSet xs"
  by (simp add: arrayFromSet_def foldl_setAdd_absorb set_foldl_setAdd)

lemma distinct_foldl_setAdd: "distinct acc \<Longrightarrow> distinct (foldl setAdd acc xs)"
  by (induction xs arbitrary: acc) (simp_all add: setAdd_def)

lemma distinct_arrayFromSet: "distinct (arrayFromSet xs)"
  by (simp add: arrayFromSet_def distinct_foldl_setAdd)

lemma orElse_idem: "orElse (orElse a b) b = orElse a b" "orElse a a = a"
  by (simp_all add: orElse_def)

lemma storedFor_dedupStep:
  "map_of (dedupStep seen c) (mergeKey c) = Some (storedFor seen c)"
  by (simp add: map_of_dedupStep storedFor_def)

lemma storedFor_again:
  "storedFor (dedupStep seen c) c = mergePerson (storedFor seen c) c"
  by (simp add: storedFor_def [of "dedupStep seen c"] storedFor_dedupStep)

lemma otherSources_again:
  "otherSources (mergePerson (storedFor seen c) c) = arrayFromSet (otherSources (storedFor seen c))"
proof -
  have "set (otherSources c) \<subseteq> set (otherSources (storedFor seen c))"
    by (simp add: storedFor_def mergePerson_def set_arrayFromSet split: option.splits)
  then show ?thesis
    by (simp add: mergePerson_def [of "storedFor seen c"] arrayFromSet_absorb)
qed

lemma otherSources_stored_distinct:
  "distinct (otherSources c) \<Longrightarrow> distinct (otherSources (storedFor seen c))"
  by (simp add: storedFor_def mergePerson_def distinct_arrayFromSet split: option.splits)

lemma score_again:
  "researchScore (mergePerson (storedFor seen c) c) = min 1 (researchScore (storedFor seen c) + 1 / 10)"
  by (auto simp: storedFor_def mergePerson_def max_def min_def split: option.splits)


text \<open>
  Claim C8. Processing the same candidate a second time leaves the stored identity as it
  was after the first time in its name, links, location, location confidence, relevance
  flag and set of sources (the source list itself too when the candidate's list has no
  repetition); the score becomes the previous score plus 0.1, capped at 1.
\<close>

theorem merge_twice:
  "map_of (dedupStep seen c) (mergeKey c) = Some (storedFor seen c) \<and>
   map_of (dedupStep (dedupStep seen c) c) (mergeKey c) = Some (storedFor (dedupStep seen c) c) \<and>
   name (storedFor (dedupStep seen c) c) = name (storedFor seen c) \<and>
   githubUrl (storedFor (dedupStep seen c) c) = githubUrl (storedFor seen c) \<and>
   openAlexUrl (storedFor (dedupStep seen c) c) = openAlexUrl (storedFor seen c) \<and>
   homepageUrl (storedFor (dedupStep seen c) c) = homepageUrl (storedFor seen c) \<and>
   xaiPageUrl (storedFor (dedupStep seen c) c) = xaiPageUrl (storedFor seen c) \<and>
   location (storedFor (dedupStep seen c) c) = location (storedFor seen c) \<and>
   locationConfidence (storedFor (dedupStep seen c) c) = locationConfidence (storedFor seen c) \<and>
   isResearchLike (storedFor (dedupStep seen c) c) = isResearchLike (storedFor seen c) \<and>
   set (otherSources (storedFor (dedupStep seen c) c)) = set (otherSources (storedFor seen c)) \<and>
   (distinct (otherSources c) \<longrightarrow>
      otherSources (storedFor (dedupStep seen c) c) = otherSources (storedFor seen c)) \<and>
   researchScore (storedFor (dedupStep seen c) c) =
     min 1 (researchScore (storedFor seen c) + 1 / 10)"
proof -
  let ?m1 = "storedFor seen c"
  have again: "storedFor (dedupStep seen c) c = mergePerson ?m1 c"
    by (rule storedFor_again)
  have fields: "name (mergePerson ?m1 c) = name ?m1"
    "githubUrl (mergePerson ?m1 c) = githubUrl ?m1"
    "openAlexUrl (mergePerson ?m1 c) = openAlexUrl ?m1"
    "homepageUrl (mergePerson ?m1 c) = homepageUrl ?m1"
    "xaiPageUrl (mergePerson ?m1 c) = xaiPageUrl ?m1"
    "location (mergePerson ?m1 c) = location ?m1"
    by (simp_all add: mergePerson_def [of ?m1] storedFor_def orElse_idem split: option.splits)
       (simp_all add: mergePerson_def orElse_idem)
  have conf: "locationConfidence (mergePerson ?m1 c) = locationConfidence ?m1"
    by (auto simp: storedFor_def mergePerson_def split: option.splits)
  have like: "isResearchLike (mergePerson ?m1 c) = isResearchLike ?m1"
    by (auto simp: storedFor_def mergePerson_def split: option.splits)
  have src: "set (otherSources (mergePerson ?m1 c)) = set (otherSources ?m1)"
    by (simp add: otherSources_again set_arrayFromSet)
  have src_list: "distinct (otherSources c) \<longrightarrow>
      otherSources (mergePerson ?m1 c) = otherSources ?m1"
    by (simp add: otherSources_again otherSources_stored_distinct arrayFromSet_distinct)
  show ?thesis
    unfolding again
    by (intro conjI storedFor_dedupStep fields conf like src src_list score_again)
       (simp add: storedFor_dedupStep [of "dedupStep seen c" c] again)
qed

theorem merge_twice_witness:
  "distinct (otherSources candB) \<and>
   map_of (dedupStep (dedupSeen [candA]) candB) (mergeKey candB) = Some (mergePerson candA candB) \<and>
   map_of (dedupStep (dedupStep (dedupSeen [candA]) candB) candB) (mergeKey candB) =
     Some (mergePerson (mergePerson candA candB) candB) \<and>
   otherSources (mergePerson (mergePerson candA candB) candB) = otherSources (mergePerson candA candB) \<and>
   researchScore (mergePerson candA candB) = 19 / 30 \<and>
   researchScore (mergePerson (mergePerson candA candB) candB) = 22 / 30 \<and>
   distinct (otherSources candA) \<and>
   deduplicatePeople [candA] = [candA] \<and>
   deduplicatePeople [candA, candA] = [mergePerson candA candA] \<and>
   researchScore candA = 8 / 15 \<and> researchScore (mergePerson candA candA) = 19 / 30 \<and>
   location (mergePerson candA candA) = location candA \<and>
   otherSources (mergePerson candA candA) = otherSources candA"
proof -
  have d: "distinct (otherSources candB)"
    by code_simp
  have s1: "storedFor (dedupSeen [candA]) candB = mergePerson candA candB"
    by (simp add: storedFor_def dedupSeen_def dedupStep_def mergeKey_candA mergeKey_candB)
  have s2: "storedFor (dedupStep (dedupSeen [candA]) candB) candB =
      mergePerson (mergePerson candA candB) candB"
    by (simp add: storedFor_again s1)
  have v: "researchScore (mergePerson candA candB) = 19 / 30"
    by code_simp
  note t = merge_twice [of "dedupSeen [candA]" candB, unfolded s1 s2]
  have v2: "researchScore (mergePerson (mergePerson candA candB) candB) = 22 / 30"
    using t v by simp
  have existing: "distinct (otherSources candB) \<and>
   map_of (dedupStep (dedupSeen [candA]) candB) (mergeKey candB) = Some (mergePerson candA candB) \<and>
   map_of (dedupStep (dedupStep (dedupSeen [candA]) candB) candB) (mergeKey candB) =
     Some (mergePerson (mergePerson candA candB) candB) \<and>
   otherSources (mergePerson (mergePerson candA candB) candB) = otherSources (mergePerson candA candB) \<and>
   researchScore (mergePerson candA candB) = 19 / 30 \<and>
   researchScore (mergePerson (mergePerson candA candB) candB) = 22 / 30"
    using d t v v2 by blast
  have f0: "storedFor [] candA = candA"
    by (simp add: storedFor_def)
  have f1: "storedFor (dedupStep [] candA) candA = mergePerson candA candA"
    by (simp add: storedFor_again f0)
  have e: "distinct (otherSources candA)" "researchScore candA = 8 / 15"
    by code_simp+
  note u = merge_twice [of "[]" candA, unfolded f0 f1]
  have w: "researchScore (mergePerson candA candA) = 19 / 30"
    using u e(2) by simp
  have "deduplicatePeople [candA] = [candA]"
    "deduplicatePeople [candA, candA] = [mergePerson candA candA]"
    by (simp_all add: deduplicatePeople_def dedupSeen_def dedupStep_def)
  then have fresh: "distinct (otherSources candA) \<and>
   deduplicatePeople [candA] = [candA] \<and>
   deduplicatePeople [candA, candA] = [mergePerson candA candA] \<and>
   researchScore candA = 8 / 15 \<and> researchScore (mergePerson candA candA) = 19 / 30 \<and>
   location (mergePerson candA candA) = location candA \<and>
   otherSources (mergePerson candA candA) = otherSources candA"
    using u e w by blast
  show ?thesis
    using existing fresh by blast
qed

lemma linkValue_orElse_comm:
  "(linkValue (orElse x y) = linkValue (orElse y x)) = (\<not> conflicting x y)"
  by (auto simp: linkValue_def orElse_def orElseStr_def conflicting_def truthy_def
      split: option.splits)

lemma same_key_github:
  "mergeKey a = mergeKey b \<Longrightarrow> \<not> conflicting (githubUrl a) (githubUrl b)"
  by (auto simp: mergeKey_def orElse_def orElseStr_def conflicting_def truthy_def
      split: option.splits)

lemma confRank_inj: "confRank x = confRank y \<Longrightarrow> x = y"
  by (cases x; cases y) (simp_all add: confRank_def)

text \<open>
  Claim C9, amended. For two candidates with the same merge key both processing orders give
  one identity with the same set of sources, relevance flag, score, location confidence and
  GitHub link. The OpenAlex and homepage slots hold the same value in both orders exactly
  when the two candidates do not carry two different non-empty values there; when they do,
  the value of the candidate processed first is stored, as for the name.
\<close>

theorem merge_order:
  assumes "mergeKey a = mergeKey b"
  shows "deduplicatePeople [a, b] = [mergePerson a b] \<and>
    deduplicatePeople [b, a] = [mergePerson b a] \<and>
    set (otherSources (mergePerson a b)) = set (otherSources (mergePerson b a)) \<and>
    isResearchLike (mergePerson a b) = isResearchLike (mergePerson b a) \<and>
    researchScore (mergePerson a b) = researchScore (mergePerson b a) \<and>
    locationConfidence (mergePerson a b) = locationConfidence (mergePerson b a) \<and>
    linkValue (githubUrl (mergePerson a b)) = linkValue (githubUrl (mergePerson b a)) \<and>
    (linkValue (openAlexUrl (mergePerson a b)) = linkValue (openAlexUrl (mergePerson b a))) =
      (\<not> conflicting (openAlexUrl a) (openAlexUrl b)) \<and>
    (linkValue (homepageUrl (mergePerson a b)) = linkValue (homepageUrl (mergePerson b a))) =
      (\<not> conflicting (homepageUrl a) (homepageUrl b)) \<and>
    name (mergePerson a b) = name a \<and> name (mergePerson b a) = name b \<and>
    openAlexUrl (mergePerson a b) =
      (if truthy (openAlexUrl a) then openAlexUrl a else openAlexUrl b) \<and>
    homepageUrl (mergePerson a b) =
      (if truthy (homepageUrl a) then homepageUrl a else homepageUrl b)"
proof -
  have ab: "deduplicatePeople [a, b] = [mergePerson a b]"
    using assms by (simp add: deduplicatePeople_pair)
  have ba: "deduplicatePeople [b, a] = [mergePerson b a]"
    using assms by (simp add: deduplicatePeople_pair)
  have src: "set (otherSources (mergePerson a b)) = set (otherSources (mergePerson b a))"
    by (auto simp: mergePerson_def set_arrayFromSet)
  have like: "isResearchLike (mergePerson a b) = isResearchLike (mergePerson b a)"
    by (auto simp: mergePerson_def)
  have score: "researchScore (mergePerson a b) = researchScore (mergePerson b a)"
    by (simp add: mergePerson_def max.commute)
  have conf: "locationConfidence (mergePerson a b) = locationConfidence (mergePerson b a)"
    using confRank_inj [of "locationConfidence a" "locationConfidence b"]
    by (auto simp: mergePerson_def)
  have gh: "linkValue (githubUrl (mergePerson a b)) = linkValue (githubUrl (mergePerson b a))"
    using same_key_github [OF assms] by (simp add: mergePerson_def linkValue_orElse_comm)
  have oa: "(linkValue (openAlexUrl (mergePerson a b)) = linkValue (openAlexUrl (mergePerson b a))) =
      (\<not> conflicting (openAlexUrl a) (openAlexUrl b))"
    by (simp add: mergePerson_def linkValue_orElse_comm)
  have hp: "(linkValue (homepageUrl (mergePerson a b)) = linkValue (homepageUrl (mergePerson b a))) =
      (\<not> conflicting (homepageUrl a) (homepageUrl b))"
    by (simp add: mergePerson_def linkValue_orElse_comm)
  have nm: "name (mergePerson a b) = name a" "name (mergePerson b a) = name b"
    by (simp_all add: mergePerson_def)
  have first: "openAlexUrl (mergePerson a b) =
      (if truthy (openAlexUrl a) then openAlexUrl a else openAlexUrl b)"
    "homepageUrl (mergePerson a b) =
      (if truthy (homepageUrl a) then homepageUrl a else homepageUrl b)"
    by (simp_all add: mergePerson_def orElse_def)
  show ?thesis
    by (intro conjI ab ba src like score conf gh oa hp nm first)
qed

theorem merge_order_witness:
  "mergeKey candBlogA = mergeKey candB \<and>
   deduplicatePeople [candBlogA, candB] = [mergePerson candBlogA candB] \<and>
   deduplicatePeople [candB, candBlogA] = [mergePerson candB candBlogA] \<and>
   set (otherSources (mergePerson candBlogA candB)) =
     set (otherSources (mergePerson candB candBlogA)) \<and>
   isResearchLike (mergePerson candBlogA candB) = isResearchLike (mergePerson candB candBlogA) \<and>
   linkValue (homepageUrl (mergePerson candBlogA candB)) =
     linkValue (homepageUrl (mergePerson candB candBlogA)) \<and>
   homepageUrl (mergePerson candBlogA candB) = Some ''https://jane.example'' \<and>
   name (mergePerson candBlogA candB) = ''Jane Doe'' \<and>
   name (mergePerson candB candBlogA) = ''jane doe''"
proof -
  have k: "mergeKey candBlogA = mergeKey candB"
    by code_simp
  have n: "name candBlogA = ''Jane Doe''" "name candB = ''jane doe''"
    "homepageUrl candBlogA = Some ''https://jane.example''"
    "\<not> conflicting (homepageUrl candBlogA) (homepageUrl candB)"
    by code_simp+
  note t = merge_order [OF k]
  have d: "deduplicatePeople [candBlogA, candB] = [mergePerson candBlogA candB]"
    "deduplicatePeople [candB, candBlogA] = [mergePerson candB candBlogA]"
    "set (otherSources (mergePerson candBlogA candB)) =
       set (otherSources (mergePerson candB candBlogA))"
    "isResearchLike (mergePerson candBlogA candB) = isResearchLike (mergePerson candB candBlogA)"
    using t by blast+
  have lv: "linkValue (homepageUrl (mergePerson candBlogA candB)) =
      linkValue (homepageUrl (mergePerson candB candBlogA))"
    using t n(4) by blast
  have "name (mergePerson candBlogA candB) = name candBlogA"
    "name (mergePerson candB candBlogA) = name candB"
    using t by blast+
  then have nm: "name (mergePerson candBlogA candB) = ''Jane Doe''"
    "name (mergePerson candB candBlogA) = ''jane doe''"
    using n(1,2) by simp_all
  have "homepageUrl (mergePerson candBlogA candB) =
      (if truthy (homepageUrl candBlogA) then homepageUrl candBlogA else homepageUrl candB)"
    using t by blast
  then have hp: "homepageUrl (mergePerson candBlogA candB) = Some ''https://jane.example''"
    using n(3) by (simp add: truthy_def)
  show ?thesis
    by (intro conjI k d lv hp nm)
qed

text \<open>
  Two snapshots of one account with different homepage links: the stored homepage is the
  one of whichever candidate comes first.
\<close>

theorem links_depend_on_order:
  "mergeKey candBlogA = mergeKey candBlogB \<and>
   map homepageUrl (deduplicatePeople [candBlogA, candBlogB]) = [Some ''https://jane.example''] \<and>
   map homepageUrl (deduplicatePeople [candBlogB, candBlogA]) = [Some ''https://jane.dev'']"
  by code_simp

end
